theory Spec2Isabelle
  imports Complex_Main
begin

section \<open>Values, arrays and errors\<close>

text \<open>
  The script \<^verbatim>\<open>001_plot_envelopes_3d.py\<close> builds cross-sections of a beam and of its
  aperture and stitches them into a surface. Its numbers are Python and numpy floats: they
  are modelled as real numbers, so rounding is not represented. Every exception the
  script can raise inside the functions modelled here is a value of \<open>py_error\<close>.
\<close>

datatype py_error = ValueError | IndexError | AssertionError

type_synonym 'a result = "py_error + 'a"

definition py_bind :: "'a result \<Rightarrow> ('a \<Rightarrow> 'b result) \<Rightarrow> 'b result" where
  "py_bind r f = (case r of Inl e \<Rightarrow> Inl e | Inr v \<Rightarrow> f v)"

text \<open>A point, and a \<open>(P, 3)\<close> array of points as the list of its rows.\<close>

type_synonym vec3 = "real \<times> real \<times> real"

text \<open>
  A numpy array of any rank: its shape and its elements in row-major order. An array
  that numpy can hold has as many elements as its shape says (\<open>valid_array\<close>).
\<close>

record ndarray =
  shape :: "nat list"
  data :: "real list"

definition valid_array :: "ndarray \<Rightarrow> bool" where
  "valid_array a = (length (data a) = prod_list (shape a))"

section \<open>The ruled-surface mesher\<close>

text \<open>
  \<^verbatim>\<open>num_polys, points_per_poly, dim = pts.shape\<close> raises ValueError unless the shape has
  exactly three entries.
\<close>

fun unpack3 :: "nat list \<Rightarrow> (nat \<times> nat \<times> nat) result" where
  "unpack3 [a, b, c] = Inr (a, b, c)"
| "unpack3 _ = Inl ValueError"

text \<open>
  \<^verbatim>\<open>pts.reshape(-1, 3)\<close>: the same elements, as rows of three. numpy raises ValueError
  when the number of elements is not a multiple of three.
\<close>

definition reshape_rows3 :: "ndarray \<Rightarrow> ndarray result" where
  "reshape_rows3 a =
     (if length (data a) mod 3 = 0
      then Inr \<lparr>shape = [length (data a) div 3, 3], data = data a\<rparr>
      else Inl ValueError)"

text \<open>\<^verbatim>\<open>range(n)\<close> for a Python integer: empty when \<open>n \<le> 0\<close>.\<close>

definition py_range :: "int \<Rightarrow> int list" where
  "py_range n = map int [0..<nat n]"

text \<open>
  \<^verbatim>\<open>np.hstack\<close> of a list of one-dimensional rows: their concatenation. numpy raises
  ValueError (need at least one array to concatenate) on the empty list.
\<close>

definition hstack :: "int list list \<Rightarrow> int list result" where
  "hstack rows = (if rows = [] then Inl ValueError else Inr (concat rows))"

text \<open>The row \<^verbatim>\<open>[4, i, i + 1, points_per_poly + i + 1, points_per_poly + i]\<close>.\<close>

definition quad_row :: "int \<Rightarrow> int \<Rightarrow> int list" where
  "quad_row P i = [4, i, i + 1, P + i + 1, P + i]"

text \<open>\<^verbatim>\<open>pv.PolyData(vertices, faces)\<close>: the vertex buffer and the padded face array.\<close>

record polydata =
  vertices :: ndarray
  faces :: "int list"

definition mesh_from_polygons :: "ndarray \<Rightarrow> bool \<Rightarrow> polydata result" where
  "mesh_from_polygons pts close =
     py_bind (unpack3 (shape pts)) (\<lambda>(num_polys, points_per_poly, dim).
       if dim \<noteq> 3 then Inl AssertionError
       else py_bind (reshape_rows3 pts) (\<lambda>verts.
         let P = int points_per_poly;
             num_faces = P * (int num_polys - 1) - 1
         in py_bind
              (hstack (map (quad_row P)
                 (filter (\<lambda>i. close \<or> i mod P \<noteq> P - 1) (py_range num_faces))))
              (\<lambda>fs. Inr \<lparr>vertices = verts, faces = fs\<rparr>)))"

text \<open>
  The faces a padded face array holds, as the mesh library reads it: a count \<open>n\<close>
  followed by \<open>n\<close> vertex indices, repeated.
\<close>

fun cells :: "int list \<Rightarrow> int list list" where
  "cells [] = []"
| "cells (n # rest) = take (nat n) rest # cells (drop (nat n) rest)"

definition n_faces :: "polydata \<Rightarrow> nat" where
  "n_faces m = length (cells (faces m))"

text \<open>The vertex buffer's index of point \<open>j\<close> of slice \<open>i\<close>, for \<open>P\<close> points per slice.\<close>

definition vertex_index :: "int \<Rightarrow> int \<Rightarrow> int \<Rightarrow> int" where
  "vertex_index P i j = i * P + j"

text \<open>
  The face the specification describes for slice \<open>i\<close> and vertex \<open>j\<close>: it connects
  \<open>(i, j)\<close>, \<open>(i, j + 1 mod P)\<close>, \<open>(i + 1, j + 1 mod P)\<close> and \<open>(i + 1, j)\<close>.
\<close>

definition spec_face :: "int \<Rightarrow> int \<Rightarrow> int \<Rightarrow> int list" where
  "spec_face P i j =
     [vertex_index P i j, vertex_index P i ((j + 1) mod P),
      vertex_index P (i + 1) ((j + 1) mod P), vertex_index P (i + 1) j]"

text \<open>The faces of a mesh, each as the list of its vertex indices.\<close>

definition face_list :: "polydata \<Rightarrow> int list list" where
  "face_list m = cells (faces m)"

section \<open>Cross-section generators\<close>

text \<open>
  \<^verbatim>\<open>np.linspace(start, stop, num)\<close> with numpy's default \<^verbatim>\<open>endpoint=True\<close>: \<open>num\<close>
  samples with the step \<open>(stop - start) / (num - 1)\<close>, the last one set to \<open>stop\<close>.
\<close>

definition linspace :: "real \<Rightarrow> real \<Rightarrow> nat \<Rightarrow> real list" where
  "linspace start stop num =
     (if num = 0 then []
      else if num = 1 then [start]
      else map (\<lambda>k. start + real k * ((stop - start) / real (num - 1))) [0..<num - 1]
           @ [stop])"

text \<open>
  \<^verbatim>\<open>Rotation.from_euler('z', theta).apply(p)\<close> of scipy, for one point: the rotation by
  the angle \<open>theta\<close> (in radians) about the third axis, whose matrix has the rows
  \<open>(cos theta, - sin theta, 0)\<close>, \<open>(sin theta, cos theta, 0)\<close> and \<open>(0, 0, 1)\<close>.
\<close>

definition rotate_z :: "real \<Rightarrow> vec3 \<Rightarrow> vec3" where
  "rotate_z theta p =
     (case p of (px, py, pz) \<Rightarrow>
        (cos theta * px - sin theta * py, sin theta * px + cos theta * py, pz))"

definition vadd :: "vec3 \<Rightarrow> vec3 \<Rightarrow> vec3" where
  "vadd p q = (case p of (px, py, pz) \<Rightarrow> case q of (qx, qy, qz) \<Rightarrow> (px + qx, py + qy, pz + qz))"

text \<open>The third coordinate of a point.\<close>

definition coord3 :: "vec3 \<Rightarrow> real" where
  "coord3 p = snd (snd p)"

text \<open>\<^verbatim>\<open>np.tile([x, y, z], (n, 1))\<close>: \<open>n\<close> rows, each the point.\<close>

definition np_tile :: "vec3 \<Rightarrow> nat \<Rightarrow> vec3 list" where
  "np_tile p n = replicate n p"

text \<open>
  The sum of two \<open>(n, 3)\<close> arrays, row by row. Every sum in the generators adds a
  tiled centre built with the row count of the other operand.
\<close>

definition add_rows :: "vec3 list \<Rightarrow> vec3 list \<Rightarrow> vec3 list" where
  "add_rows ps qs = map2 vadd ps qs"

definition ellipse ::
  "real \<Rightarrow> real \<Rightarrow> real \<Rightarrow> real \<Rightarrow> real \<Rightarrow> real \<Rightarrow> real \<Rightarrow> real \<Rightarrow> vec3 list" where
  "ellipse rxy rz beam_xy beam_z x y z theta =
     (let ts = linspace 0 (2 * pi) 20;
          points_xz = map (\<lambda>t. (rxy * cos t + beam_xy, 0, rz * sin t + beam_z)) ts;
          points_xz = map (rotate_z theta) points_xz
      in add_rows points_xz (np_tile (x, y, z) (length ts)))"

text \<open>
  \<^verbatim>\<open>np.column_stack\<close> of three one-dimensional arrays: numpy raises ValueError unless
  they have the same length.
\<close>

definition column_stack :: "real list \<Rightarrow> real list \<Rightarrow> real list \<Rightarrow> vec3 list result" where
  "column_stack a b c =
     (if length a = length b \<and> length b = length c then Inr (zip a (zip b c))
      else Inl ValueError)"

definition zeros_like :: "real list \<Rightarrow> real list" where
  "zeros_like xs = map (\<lambda>v. 0) xs"

definition make_screen ::
  "real list \<Rightarrow> real list \<Rightarrow> real \<Rightarrow> real \<Rightarrow> real \<Rightarrow> real \<Rightarrow> vec3 list result" where
  "make_screen xs ys x y z theta =
     py_bind (column_stack xs (zeros_like xs) ys) (\<lambda>points_xz.
       let points_xz = map (rotate_z theta) points_xz
       in Inr (add_rows points_xz (np_tile (x, y, z) (length points_xz))))"

definition make_rectangular_screen ::
  "real \<Rightarrow> real \<Rightarrow> real \<Rightarrow> real \<Rightarrow> real \<Rightarrow> real \<Rightarrow> real \<Rightarrow> real \<Rightarrow> bool \<Rightarrow> vec3 list" where
  "make_rectangular_screen x_min x_max y_min y_max x y z theta close =
     (let x_max = (if \<not> close then 0 else x_max);
          points_xz = [(x_max, 0, y_min), (x_min, 0, y_min), (x_min, 0, y_max),
                       (x_max, 0, y_max)];
          points_xz = map (rotate_z theta) points_xz
      in add_rows points_xz (np_tile (x, y, z) (length points_xz)))"

section \<open>Tables, indexing and elementwise arithmetic\<close>

text \<open>
  The rows selected from the optics (twiss) table and from the survey table, as the
  columns the script reads. A table's columns all have the length of the table
  (\<open>valid_twiss\<close>, \<open>valid_survey\<close>, \<open>valid_aperture\<close>); \<open>gamma0\<close> is a scalar of the twiss
  table. The selection of the rows itself belongs to the optics library.
\<close>

record twiss_table =
  tw_s :: "real list"
  tw_x :: "real list"
  tw_y :: "real list"
  tw_betx :: "real list"
  tw_bety :: "real list"
  tw_dx :: "real list"
  tw_dy :: "real list"
  tw_gamma0 :: real

record survey_table =
  sv_X :: "real list"
  sv_Y :: "real list"
  sv_Z :: "real list"
  sv_theta :: "real list"

record aperture_table =
  ap_polygon_x_discrete :: "real list list"
  ap_polygon_y_discrete :: "real list list"
  ap_aperture_mask :: "bool list"

definition valid_twiss :: "twiss_table \<Rightarrow> nat \<Rightarrow> bool" where
  "valid_twiss tw n =
     (length (tw_s tw) = n \<and> length (tw_x tw) = n \<and> length (tw_y tw) = n
      \<and> length (tw_betx tw) = n \<and> length (tw_bety tw) = n
      \<and> length (tw_dx tw) = n \<and> length (tw_dy tw) = n)"

definition valid_survey :: "survey_table \<Rightarrow> nat \<Rightarrow> bool" where
  "valid_survey sv m =
     (length (sv_X sv) = m \<and> length (sv_Y sv) = m \<and> length (sv_Z sv) = m
      \<and> length (sv_theta sv) = m)"

definition valid_aperture :: "aperture_table \<Rightarrow> nat \<Rightarrow> bool" where
  "valid_aperture ap n =
     (length (ap_polygon_x_discrete ap) = n \<and> length (ap_polygon_y_discrete ap) = n
      \<and> length (ap_aperture_mask ap) = n)"

text \<open>\<^verbatim>\<open>a[i]\<close> for an index that is not negative: IndexError past the end.\<close>

definition py_index :: "'a list \<Rightarrow> nat \<Rightarrow> 'a result" where
  "py_index xs i = (if i < length xs then Inr (xs ! i) else Inl IndexError)"

text \<open>
  A list comprehension \<^verbatim>\<open>[f(i) for i in items]\<close> whose body can raise: the first
  exception ends it.
\<close>

fun py_for :: "('a \<Rightarrow> 'b result) \<Rightarrow> 'a list \<Rightarrow> 'b list result" where
  "py_for f [] = Inr []"
| "py_for f (a # as) =
     py_bind (f a) (\<lambda>b. py_bind (py_for f as) (\<lambda>bs. Inr (b # bs)))"

text \<open>
  An elementwise operation of numpy on two one-dimensional arrays: arrays of the same
  length are combined entry by entry, an array of length one is broadcast, and any
  other pair of lengths raises ValueError.
\<close>

definition np_binop ::
  "(real \<Rightarrow> real \<Rightarrow> real) \<Rightarrow> real list \<Rightarrow> real list \<Rightarrow> real list result" where
  "np_binop f a b =
     (if length a = length b then Inr (map2 f a b)
      else if length a = 1 then Inr (map (f (hd a)) b)
      else if length b = 1 then Inr (map (\<lambda>v. f v (hd b)) a)
      else Inl ValueError)"

text \<open>
  \<^verbatim>\<open>np.array\<close> of a list of \<open>(P, 3)\<close> arrays: an array of shape \<open>(N, P, 3)\<close> when all have
  the same \<open>P\<close>, the empty array of shape \<open>(0,)\<close> for the empty list. For rows of
  different lengths numpy raises ValueError.
\<close>

definition flatten_vec3 :: "vec3 \<Rightarrow> real list" where
  "flatten_vec3 p = (case p of (a, b, c) \<Rightarrow> [a, b, c])"

definition np_array :: "vec3 list list \<Rightarrow> ndarray result" where
  "np_array polys =
     (case polys of
        [] \<Rightarrow> Inr \<lparr>shape = [0], data = []\<rparr>
      | p # ps \<Rightarrow>
          if list_all (\<lambda>q. length q = length p) ps
          then Inr \<lparr>shape = [length polys, length p, 3],
                    data = concat (map flatten_vec3 (concat polys))\<rparr>
          else Inl ValueError)"

text \<open>\<^verbatim>\<open>np.where(flags)[0]\<close>: the indices of the true entries, ascending.\<close>

definition np_where :: "bool list \<Rightarrow> nat list" where
  "np_where flags = filter (\<lambda>i. flags ! i) [0..<length flags]"

section \<open>The envelope sizer\<close>

record beam_size =
  bs_s :: "real list"
  bs_x :: "real list"
  bs_sigx :: "real list"
  bs_y :: "real list"
  bs_sigy :: "real list"
  bs_sx :: "real list"
  bs_sy :: "real list"
  bs_sz :: "real list"
  bs_theta :: "real list"

text \<open>
  \<^verbatim>\<open>np.sqrt\<close> is the real square root here: numpy returns nan below zero, which the
  real numbers do not have, so every statement about \<open>sigx\<close> and \<open>sigy\<close> is for
  arguments that are not negative.
\<close>

definition compute_beam_size :: "survey_table \<Rightarrow> twiss_table \<Rightarrow> beam_size result" where
  "compute_beam_size survey twiss =
     (let sx = sv_X survey; sy = sv_Y survey; sz = sv_Z survey; theta = sv_theta survey;
          s = tw_s twiss; x = tw_x twiss; y = tw_y twiss;
          betx = tw_betx twiss; bety = tw_bety twiss; dx = tw_dx twiss; dy = tw_dy twiss;
          nemitt_x = 25 / 10000000; nemitt_y = 25 / 10000000;
          gamma0 = tw_gamma0 twiss;
          n_sigmas = 3;
          sigma_delta = 8 / 10000
      in py_bind (np_binop (+) (map (\<lambda>b. n_sigmas * sqrt (nemitt_x / gamma0 * b)) betx)
                               (map (\<lambda>d. \<bar>d\<bar> * sigma_delta) dx)) (\<lambda>sigx.
         py_bind (np_binop (+) (map (\<lambda>b. n_sigmas * sqrt (nemitt_y / gamma0 * b)) bety)
                               (map (\<lambda>d. \<bar>d\<bar> * sigma_delta) dy)) (\<lambda>sigy.
         Inr \<lparr>bs_s = s, bs_x = x, bs_sigx = sigx, bs_y = y, bs_sigy = sigy,
              bs_sx = sx, bs_sy = sy, bs_sz = sz, bs_theta = theta\<rparr>)))"

section \<open>The beam envelope and the closed orbit\<close>

text \<open>
  \<^verbatim>\<open>plot_beam_size\<close> from the call of \<^verbatim>\<open>compute_beam_size\<close> on, for the selected
  survey and twiss rows. \<open>beam_sections\<close> is the list comprehension of the ellipses,
  \<open>orbit_center\<close> the \<^verbatim>\<open>np.column_stack\<close> of the closed orbit; what the function hands to
  the renderer is the surface and the points of the spline.
\<close>

definition beam_sections :: "beam_size \<Rightarrow> nat \<Rightarrow> real \<Rightarrow> vec3 list list result" where
  "beam_sections r min_len scale =
     py_for (\<lambda>i.
       py_bind (py_index (bs_sigx r) i) (\<lambda>sigx_i.
       py_bind (py_index (bs_sigy r) i) (\<lambda>sigy_i.
       py_bind (py_index (bs_x r) i) (\<lambda>x_i.
       py_bind (py_index (bs_y r) i) (\<lambda>y_i.
       py_bind (py_index (bs_sx r) i) (\<lambda>sx_i.
       py_bind (py_index (bs_sz r) i) (\<lambda>sz_i.
       py_bind (py_index (bs_sy r) i) (\<lambda>sy_i.
       py_bind (py_index (bs_theta r) i) (\<lambda>theta_i.
         Inr (ellipse (sigx_i * scale) (sigy_i * scale) (x_i * scale) (y_i * scale)
                sx_i sz_i sy_i theta_i))))))))))
       [0..<min_len]"

definition orbit_center :: "beam_size \<Rightarrow> nat \<Rightarrow> real \<Rightarrow> vec3 list result" where
  "orbit_center r min_len scale =
     (let sx = take min_len (bs_sx r); sy = take min_len (bs_sy r);
          sz = take min_len (bs_sz r); theta = take min_len (bs_theta r);
          x = take min_len (bs_x r); y = take min_len (bs_y r)
      in py_bind (np_binop (*) (map cos theta) x) (\<lambda>cx.
         py_bind (np_binop (+) sx (map (\<lambda>v. v * scale) cx)) (\<lambda>c1.
         py_bind (np_binop (*) (map sin theta) x) (\<lambda>sx'.
         py_bind (np_binop (+) sz (map (\<lambda>v. v * scale) sx')) (\<lambda>c2.
         py_bind (np_binop (+) sy (map (\<lambda>v. v * scale) y)) (\<lambda>c3.
         column_stack c1 c2 c3))))))"

record beam_plot =
  bp_pts :: "vec3 list list"
  bp_surface :: polydata
  bp_center :: "vec3 list"

definition plot_beam_size :: "twiss_table \<Rightarrow> survey_table \<Rightarrow> real \<Rightarrow> beam_plot result" where
  "plot_beam_size tw sv scale =
     py_bind (compute_beam_size sv tw) (\<lambda>r.
       let min_len = min (length (bs_x r)) (length (bs_theta r))
       in py_bind (beam_sections r min_len scale) (\<lambda>pts.
          py_bind (np_array pts) (\<lambda>arr.
          py_bind (mesh_from_polygons arr True) (\<lambda>surface.
          py_bind (orbit_center r min_len scale) (\<lambda>center.
          Inr \<lparr>bp_pts = pts, bp_surface = surface, bp_center = center\<rparr>)))))"

section \<open>The aperture slicer\<close>

text \<open>
  \<^verbatim>\<open>plot_apertures\<close> for the selected survey and aperture rows. \<open>aperture_sections\<close>
  is its list comprehension over \<^verbatim>\<open>aper_indices\<close>.
\<close>

definition aperture_sections ::
  "aperture_table \<Rightarrow> survey_table \<Rightarrow> real \<Rightarrow> vec3 list list result" where
  "aperture_sections ap sv scale =
     (let sx = sv_X sv; sy = sv_Y sv; sz = sv_Z sv; theta = sv_theta sv;
          xs = ap_polygon_x_discrete ap; ys = ap_polygon_y_discrete ap;
          aper_indices = np_where (ap_aperture_mask ap)
      in py_for (\<lambda>i.
           py_bind (py_index xs i) (\<lambda>xs_i.
           py_bind (py_index ys i) (\<lambda>ys_i.
           py_bind (py_index sx i) (\<lambda>sx_i.
           py_bind (py_index sz i) (\<lambda>sz_i.
           py_bind (py_index sy i) (\<lambda>sy_i.
           py_bind (py_index theta i) (\<lambda>theta_i.
             make_screen (map (\<lambda>v. v * scale) xs_i) (map (\<lambda>v. v * scale) ys_i)
               sx_i sz_i sy_i theta_i)))))))
           aper_indices)"

definition plot_apertures ::
  "aperture_table \<Rightarrow> survey_table \<Rightarrow> bool \<Rightarrow> real \<Rightarrow> (vec3 list list \<times> polydata) result" where
  "plot_apertures ap sv close scale =
     py_bind (aperture_sections ap sv scale) (\<lambda>pts.
     py_bind (np_array pts) (\<lambda>arr.
     py_bind (mesh_from_polygons arr close) (\<lambda>surface.
     Inr (pts, surface))))"

section \<open>Facts about the mesher\<close>

lemma cells_quad_rows:
  "cells (concat (map (quad_row P) ks)) = map (\<lambda>i. [i, i + 1, P + i + 1, P + i]) ks"
  by (induction ks) (simp_all add: quad_row_def)

lemma count_not_last_nat:
  assumes "0 < P"
  shows "length (filter (\<lambda>k. k mod P \<noteq> P - 1) [0..<n]) = n - n div P"
proof (induction n)
  case 0
  show ?case by simp
next
  case (Suc n)
  have le: "n div P \<le> n" by simp
  show ?case
  proof (cases "n mod P = P - 1")
    case True
    then have "Suc n mod P = 0" using assms by (simp add: mod_Suc)
    then have "Suc n div P = Suc (n div P)" by (simp add: div_Suc)
    with Suc True le show ?thesis by simp
  next
    case False
    then have "Suc n mod P \<noteq> 0" using assms by (simp add: mod_Suc)
    then have "Suc n div P = n div P" by (simp add: div_Suc)
    with Suc False le show ?thesis by (simp add: Suc_diff_le)
  qed
qed

lemma filter_py_range:
  assumes "0 < P"
  shows "filter (\<lambda>i. i mod int P \<noteq> int P - 1) (py_range n)
         = map int (filter (\<lambda>k. k mod P \<noteq> P - 1) [0..<nat n])"
proof -
  have "(int k mod int P \<noteq> int P - 1) = (k mod P \<noteq> P - 1)" for k
  proof -
    have "int P - 1 = int (P - 1)" using assms by simp
    moreover have "int k mod int P = int (k mod P)" by (simp add: zmod_int)
    ultimately show ?thesis by (simp only: of_nat_eq_iff)
  qed
  then show ?thesis by (simp add: py_range_def filter_map comp_def)
qed

lemma mesh_from_polygons_shape3:
  assumes "shape a = [N, P, 3]" and "valid_array a"
  shows "mesh_from_polygons a close =
     (let ks = filter (\<lambda>i. close \<or> i mod int P \<noteq> int P - 1)
                 (py_range (int P * (int N - 1) - 1))
      in if ks = [] then Inl ValueError
         else Inr \<lparr>vertices = \<lparr>shape = [N * P, 3], data = data a\<rparr>,
                   faces = concat (map (quad_row (int P)) ks)\<rparr>)"
  using assms
  by (simp add: mesh_from_polygons_def py_bind_def reshape_rows3_def valid_array_def
      hstack_def Let_def)

lemma upt_block: "[0..<P * Suc M] = [0..<P * M] @ map (\<lambda>j. M * P + j) [0..<P]"
proof -
  have a: "[0..<P * M + P] = [0..<P * M] @ [P * M..<P * M + P]"
    by (rule upt_add_eq_append) simp
  have f: "(\<lambda>j. M * P + j) = (\<lambda>j. j + P * M)"
    by (rule ext) (simp add: mult.commute)
  have "map (\<lambda>j. j + P * M) [0..<P] = [P * M..<P + P * M]"
    by (simp only: map_add_upt add_0)
  then have b: "[P * M..<P * M + P] = map (\<lambda>j. M * P + j) [0..<P]"
    by (simp only: f add.commute [of "P * M" P])
  have "P * Suc M = P * M + P" by simp
  then show ?thesis by (simp only: a b)
qed

lemma filter_one_block:
  assumes "0 < P"
  shows "filter (\<lambda>k. k mod P \<noteq> P - 1) (map (\<lambda>j. M * P + j) [0..<P])
         = map (\<lambda>j. M * P + j) [0..<P - 1]"
proof -
  have c: "filter (\<lambda>j. (M * P + j) mod P \<noteq> P - 1) [0..<P] = filter (\<lambda>j. j \<noteq> P - 1) [0..<P]"
  proof (rule filter_cong [OF refl])
    fix x assume "x \<in> set [0..<P]"
    then have "x < P" by simp
    then have "(M * P + x) mod P = x" by simp
    then show "((M * P + x) mod P \<noteq> P - 1) = (x \<noteq> P - 1)" by simp
  qed
  have d: "filter (\<lambda>j. j \<noteq> P - 1) [0..<P] = [0..<P - 1]"
  proof -
    obtain Q where Q: "P = Suc Q" using assms by (cases P) auto
    have "filter (\<lambda>j. j \<noteq> Q) [0..<Q] = [0..<Q]"
      by (rule filter_True) auto
    then show ?thesis by (simp add: Q)
  qed
  have "filter (\<lambda>k. k mod P \<noteq> P - 1) (map (\<lambda>j. M * P + j) [0..<P])
        = map (\<lambda>j. M * P + j) (filter (\<lambda>j. (M * P + j) mod P \<noteq> P - 1) [0..<P])"
    by (simp only: filter_map comp_def)
  then show ?thesis by (simp only: c d)
qed

lemma filter_not_last_block:
  assumes "0 < P"
  shows "filter (\<lambda>k. k mod P \<noteq> P - 1) [0..<P * M]
         = concat (map (\<lambda>s. map (\<lambda>j. s * P + j) [0..<P - 1]) [0..<M])"
proof (induction M)
  case 0
  show ?case by simp
next
  case (Suc M)
  have "filter (\<lambda>k. k mod P \<noteq> P - 1) [0..<P * Suc M]
        = filter (\<lambda>k. k mod P \<noteq> P - 1) [0..<P * M] @ map (\<lambda>j. M * P + j) [0..<P - 1]"
    by (simp only: upt_block filter_append filter_one_block [OF assms])
  also have "\<dots> = concat (map (\<lambda>s. map (\<lambda>j. s * P + j) [0..<P - 1]) [0..<M])
                   @ map (\<lambda>j. M * P + j) [0..<P - 1]"
    by (simp only: Suc.IH)
  also have "\<dots> = concat (map (\<lambda>s. map (\<lambda>j. s * P + j) [0..<P - 1]) [0..<Suc M])"
    by simp
  finally show ?case .
qed

lemma filter_not_last_open:
  assumes "0 < P" and "0 < M"
  shows "filter (\<lambda>k. k mod P \<noteq> P - 1) [0..<P * M - 1]
         = concat (map (\<lambda>s. map (\<lambda>j. s * P + j) [0..<P - 1]) [0..<M])"
proof -
  have pos: "0 < P * M" using assms by simp
  then have u: "[0..<P * M] = [0..<P * M - 1] @ [P * M - 1]"
    by (cases "P * M") simp_all
  have l: "(P * M - 1) mod P = P - 1"
  proof -
    obtain M' where M: "M = Suc M'" using assms(2) by (cases M) auto
    have e: "P * M - 1 = M' * P + (P - 1)" using assms(1) by (simp add: M algebra_simps)
    have "(M' * P + (P - 1)) mod P = (P - 1) mod P" by (rule mod_mult_self3)
    also have "\<dots> = P - 1" using assms(1) by simp
    finally show ?thesis by (simp only: e)
  qed
  have "filter (\<lambda>k. k mod P \<noteq> P - 1) [0..<P * M]
      = filter (\<lambda>k. k mod P \<noteq> P - 1) [0..<P * M - 1]"
    using l by (subst u) simp
  then show ?thesis using filter_not_last_block [OF assms(1), of M] by simp
qed

lemma length_blocks:
  "length (concat (map (\<lambda>s. map (f s) [0..<Q]) [0..<M])) = Q * M"
  by (induction M) simp_all

lemma tl_quad_row: "tl (quad_row P k) = [k, k + 1, P + k + 1, P + k]"
  by (simp add: quad_row_def)

lemma cells_quad_rows_tl:
  "cells (concat (map (quad_row P) ks)) = map (\<lambda>k. tl (quad_row P k)) ks"
  by (simp add: cells_quad_rows tl_quad_row)

lemma quad_row_inner:
  assumes "0 < P" and "k mod P \<noteq> P - 1"
  shows "tl (quad_row P k) = spec_face P (k div P) (k mod P)"
proof -
  have "0 \<le> k mod P" and "k mod P < P" using assms(1) by simp_all
  with assms(2) have "k mod P + 1 < P" by linarith
  then have "(k mod P + 1) mod P = k mod P + 1"
    using \<open>0 \<le> k mod P\<close> by (simp add: mod_pos_pos_trivial)
  moreover have "k div P * P + k mod P = k" by simp
  ultimately show ?thesis
    by (simp add: tl_quad_row spec_face_def vertex_index_def algebra_simps)
qed

lemma quad_row_last:
  assumes "k mod P = P - 1"
  shows "tl (quad_row P k) =
         [vertex_index P (k div P) (P - 1), vertex_index P (k div P + 1) 0,
          vertex_index P (k div P + 2) 0, vertex_index P (k div P + 1) (P - 1)]"
proof -
  have "k div P * P + k mod P = k" by simp
  then have "k = k div P * P + (P - 1)" using assms by simp
  then have "k div P * P = k - (P - 1)" by simp
  then show ?thesis
    by (simp add: tl_quad_row vertex_index_def algebra_simps)
qed

lemma spec_face_inner:
  assumes "j < P - 1"
  shows "tl (quad_row (int P) (int (s * P + j))) = spec_face (int P) (int s) (int j)"
proof -
  have "(int j + 1) mod int P = int j + 1"
    using assms by (simp add: mod_pos_pos_trivial)
  then show ?thesis
    by (simp add: tl_quad_row spec_face_def vertex_index_def algebra_simps)
qed

lemma open_keys:
  assumes "0 < P" and "0 < M"
  shows "filter (\<lambda>i. i mod int P \<noteq> int P - 1) (py_range (int P * int M - 1))
         = map int (concat (map (\<lambda>s. map (\<lambda>j. s * P + j) [0..<P - 1]) [0..<M]))"
proof -
  have "int P * int M - 1 = int (P * M - 1)" using assms by (simp add: of_nat_diff)
  then have "nat (int P * int M - 1) = P * M - 1" by simp
  then show ?thesis
    using filter_py_range [OF assms(1), of "int P * int M - 1"]
      filter_not_last_open [OF assms] by simp
qed

lemma open_faces:
  "map (\<lambda>k. tl (quad_row (int P) k))
     (map int (concat (map (\<lambda>s. map (\<lambda>j. s * P + j) [0..<P - 1]) [0..<M])))
   = concat (map (\<lambda>s. map (\<lambda>j. spec_face (int P) (int s) (int j)) [0..<P - 1]) [0..<M])"
proof -
  have inner: "map (\<lambda>j. tl (quad_row (int P) (int (s * P + j)))) [0..<P - 1]
               = map (\<lambda>j. spec_face (int P) (int s) (int j)) [0..<P - 1]" for s
    by (rule map_cong [OF refl]) (simp add: spec_face_inner del: of_nat_add of_nat_mult)
  show ?thesis
    by (simp only: map_concat map_map comp_def inner)
qed

lemma num_faces_nat:
  assumes "1 \<le> N" and "1 \<le> P * (N - 1)"
  shows "int P * (int N - 1) - 1 = int (P * (N - 1) - 1)"
proof -
  have a: "int (N - 1) = int N - 1" using assms(1) by (simp add: of_nat_diff)
  have "int (P * (N - 1) - 1) = int (P * (N - 1)) - int 1"
    using assms(2) by (rule of_nat_diff)
  also have "\<dots> = int P * (int N - 1) - 1" by (simp only: of_nat_mult a of_nat_1)
  finally show ?thesis by simp
qed

lemma length_cells_quad_rows:
  "length (cells (concat (map (quad_row P) ks))) = length ks"
  by (simp only: cells_quad_rows_tl length_map)

lemma closed_or_inner_nonempty:
  assumes "2 \<le> N" and "2 \<le> P"
  shows "filter (\<lambda>i. close \<or> i mod int P \<noteq> int P - 1)
           (py_range (int P * (int N - 1) - 1)) \<noteq> []"
proof -
  have n1: "1 \<le> N" using assms(1) by simp
  have "1 * 2 \<le> (N - 1) * P" using assms by (intro mult_le_mono) simp_all
  then have f2: "2 \<le> P * (N - 1)" by (simp add: mult.commute)
  then have f1: "1 \<le> P * (N - 1)" by linarith
  have "nat (int P * (int N - 1) - 1) = P * (N - 1) - 1"
    by (simp only: num_faces_nat [OF n1 f1] nat_int)
  then have "0 < nat (int P * (int N - 1) - 1)" using f2 by linarith
  then have mem: "(0::int) \<in> set (py_range (int P * (int N - 1) - 1))"
    by (auto simp: py_range_def image_iff intro: bexI [of _ 0])
  have keep: "close \<or> (0::int) mod int P \<noteq> int P - 1" using assms(2) by simp
  show ?thesis
  proof
    assume "filter (\<lambda>i. close \<or> i mod int P \<noteq> int P - 1)
              (py_range (int P * (int N - 1) - 1)) = []"
    then have "\<forall>x\<in>set (py_range (int P * (int N - 1) - 1)).
                 \<not> (close \<or> x mod int P \<noteq> int P - 1)"
      by (simp only: filter_empty_conv)
    with mem keep show False by blast
  qed
qed

lemma py_range_3: "py_range 3 = [0, 1, 2]"
  by (simp add: py_range_def upt_rec numeral_3_eq_3)

section \<open>Claims about the mesher\<close>

text \<open>
  Claim C1, as the code has it. For an input array of shape \<open>[N, P, 3]\<close> with
  \<open>N \<ge> 2\<close>, \<open>P \<ge> 1\<close> and \<open>P * (N - 1) \<ge> 2\<close>, the mesher called with
  \<open>close = True\<close> returns a mesh of exactly \<open>P * (N - 1) - 1\<close> quadrilateral faces:
  one fewer than the \<open>P * (N - 1)\<close> the specification states, because
  \<^verbatim>\<open>num_faces\<close> is \<^verbatim>\<open>points_per_poly * (num_polys - 1) - 1\<close>.
\<close>

theorem mesh_closed_face_count:
  assumes "shape a = [N, P, 3]" and "valid_array a" and "2 \<le> N" and "1 \<le> P"
    and "2 \<le> P * (N - 1)"
  shows "\<exists>m. mesh_from_polygons a True = Inr m \<and> n_faces m = P * (N - 1) - 1"
proof -
  have n1: "1 \<le> N" using assms(3) by simp
  have f1: "1 \<le> P * (N - 1)" using assms(5) by linarith
  have "int P * (int N - 1) - 1 = int (P * (N - 1) - 1)"
    by (rule num_faces_nat [OF n1 f1])
  then have len: "nat (int P * (int N - 1) - 1) = P * (N - 1) - 1" by simp
  then have ne: "py_range (int P * (int N - 1) - 1) \<noteq> []"
    using assms(5) by (simp add: py_range_def)
  have "mesh_from_polygons a True =
        Inr \<lparr>vertices = \<lparr>shape = [N * P, 3], data = data a\<rparr>,
             faces = concat (map (quad_row (int P)) (py_range (int P * (int N - 1) - 1)))\<rparr>"
    using ne by (simp add: mesh_from_polygons_shape3 [OF assms(1,2)])
  moreover have "length (py_range (int P * (int N - 1) - 1)) = P * (N - 1) - 1"
    using len by (simp add: py_range_def)
  ultimately show ?thesis
    by (simp add: n_faces_def cells_quad_rows)
qed

text \<open>An array of two slices of two points: the theorem gives one face.\<close>

theorem mesh_closed_face_count_witness:
  "\<exists>m. mesh_from_polygons \<lparr>shape = [2, 2, 3], data = replicate 12 0\<rparr> True = Inr m
       \<and> n_faces m = 1"
  using mesh_closed_face_count [of "\<lparr>shape = [2, 2, 3], data = replicate 12 0\<rparr>" 2 2]
  by (simp add: valid_array_def)

text \<open>
  The claim as the specification states it fails on that array: it promises
  \<open>2 * (2 - 1) = 2\<close> faces and the mesher makes one.
\<close>

theorem mesh_closed_face_count_counterexample:
  "map_sum id n_faces (mesh_from_polygons \<lparr>shape = [2, 2, 3], data = replicate 12 0\<rparr> True)
     = Inr 1
   \<and> map_sum id n_faces (mesh_from_polygons \<lparr>shape = [2, 2, 3], data = replicate 12 0\<rparr> True)
     \<noteq> Inr (2 * (2 - 1))"
  by (simp add: mesh_from_polygons_def py_bind_def reshape_rows3_def hstack_def py_range_def
      quad_row_def n_faces_def)

text \<open>
  Claim C5, as the code has it. For an input array of shape \<open>[N, P, 3]\<close> with fewer
  than two slices (\<open>N < 2\<close>) the mesher returns no mesh: \<^verbatim>\<open>num_faces\<close> is negative,
  the list of face rows is empty, and \<^verbatim>\<open>np.hstack\<close> raises ValueError on it, for either
  value of \<open>close\<close>.
\<close>

theorem mesh_too_few_slices:
  assumes "shape a = [N, P, 3]" and "N < 2"
  shows "mesh_from_polygons a close = Inl ValueError"
proof -
  have "int P * (int N - 1) \<le> 0"
    using assms(2) by (simp add: mult_nonneg_nonpos)
  then have "nat (int P * (int N - 1) - 1) = 0" by simp
  then show ?thesis
    using assms(1)
    by (simp add: mesh_from_polygons_def py_bind_def reshape_rows3_def hstack_def py_range_def)
qed

text \<open>A single slice of four points, open mode.\<close>

theorem mesh_too_few_slices_witness:
  "mesh_from_polygons \<lparr>shape = [1, 4, 3], data = replicate 12 0\<rparr> False = Inl ValueError"
  using mesh_too_few_slices [of "\<lparr>shape = [1, 4, 3], data = replicate 12 0\<rparr>" 1 4 False]
  by simp

text \<open>
  The claim as the specification states it (an empty mesh of zero faces, no error) fails
  on a single slice of four points: the call raises ValueError.
\<close>

theorem mesh_too_few_slices_counterexample:
  "mesh_from_polygons \<lparr>shape = [1, 4, 3], data = replicate 12 0\<rparr> True = Inl ValueError
   \<and> map_sum id n_faces (mesh_from_polygons \<lparr>shape = [1, 4, 3], data = replicate 12 0\<rparr> True)
     \<noteq> Inr 0"
  by (simp add: mesh_from_polygons_def py_bind_def reshape_rows3_def hstack_def py_range_def)

text \<open>
  Claim C3, as the code has it. For an input array of shape \<open>[N, P, 3]\<close> with
  \<open>N \<ge> 2\<close> and \<open>P \<ge> 2\<close>, the mesher called with \<open>close = False\<close> returns a mesh
  of exactly \<open>(P - 1) * (N - 1)\<close> quadrilateral faces: for every pair of consecutive
  slices \<open>s\<close>, \<open>s + 1\<close> the faces of the specification for the vertices
  \<open>j = 0, \<dots>, P - 2\<close>, in this order, and no face for \<open>j = P - 1\<close>, the one that
  would wrap from the last point of the polygon back to the first.
\<close>

theorem mesh_open_faces:
  assumes "shape a = [N, P, 3]" and "valid_array a" and "2 \<le> N" and "2 \<le> P"
  shows "\<exists>m. mesh_from_polygons a False = Inr m
           \<and> n_faces m = (P - 1) * (N - 1)
           \<and> cells (faces m) =
               concat (map (\<lambda>s. map (\<lambda>j. spec_face (int P) (int s) (int j)) [0..<P - 1])
                         [0..<N - 1])"
proof -
  have P0: "0 < P" and M0: "0 < N - 1" using assms(3,4) by simp_all
  have nf: "int P * (int N - 1) - 1 = int P * int (N - 1) - 1"
    using assms(3) by (simp add: of_nat_diff)
  let ?ks = "map int (concat (map (\<lambda>s. map (\<lambda>j. s * P + j) [0..<P - 1]) [0..<N - 1]))"
  have ks: "filter (\<lambda>i. False \<or> i mod int P \<noteq> int P - 1)
              (py_range (int P * (int N - 1) - 1)) = ?ks"
    using open_keys [OF P0 M0] by (simp only: nf simp_thms)
  have len: "length ?ks = (P - 1) * (N - 1)"
    by (simp only: length_map length_blocks)
  have pos: "0 < (P - 1) * (N - 1)" using assms(3,4) by simp
  have ne: "?ks \<noteq> []"
  proof
    assume "?ks = []"
    then have "length ?ks = 0" by (simp only: list.size)
    with len pos show False by linarith
  qed
  have m: "mesh_from_polygons a False =
        Inr \<lparr>vertices = \<lparr>shape = [N * P, 3], data = data a\<rparr>,
             faces = concat (map (quad_row (int P)) ?ks)\<rparr>"
    using ne by (simp only: mesh_from_polygons_shape3 [OF assms(1,2)] ks Let_def if_False)
  have c: "cells (concat (map (quad_row (int P)) ?ks)) =
           concat (map (\<lambda>s. map (\<lambda>j. spec_face (int P) (int s) (int j)) [0..<P - 1])
                     [0..<N - 1])"
    by (simp only: cells_quad_rows_tl open_faces)
  have n: "length (cells (concat (map (quad_row (int P)) ?ks))) = (P - 1) * (N - 1)"
    by (rule trans [OF length_cells_quad_rows len])
  show ?thesis
    using c n by (simp add: m n_faces_def)
qed

text \<open>Two slices of three points, open: the two faces between them.\<close>

theorem mesh_open_faces_witness:
  "\<exists>m. mesh_from_polygons \<lparr>shape = [2, 3, 3], data = replicate 18 0\<rparr> False = Inr m
       \<and> n_faces m = 2 \<and> cells (faces m) = [[0, 1, 4, 3], [1, 2, 5, 4]]"
  using mesh_open_faces [of "\<lparr>shape = [2, 3, 3], data = replicate 18 0\<rparr>" 2 3]
  by (simp add: valid_array_def spec_face_def vertex_index_def upt_rec numeral_2_eq_2)

text \<open>
  The claim as the specification states it also covers \<open>P = 1\<close>, where it promises a
  mesh of \<open>(1 - 1) * (N - 1) = 0\<close> faces. There every face row is filtered out and
  \<^verbatim>\<open>np.hstack\<close> raises ValueError.
\<close>

theorem mesh_open_faces_counterexample:
  "mesh_from_polygons \<lparr>shape = [2, 1, 3], data = replicate 6 0\<rparr> False = Inl ValueError
   \<and> map_sum id n_faces (mesh_from_polygons \<lparr>shape = [2, 1, 3], data = replicate 6 0\<rparr> False)
     \<noteq> Inr ((1 - 1) * (2 - 1))"
  by (simp add: mesh_from_polygons_def py_bind_def reshape_rows3_def hstack_def py_range_def)

text \<open>
  Claim C2, as the code has it. For an input array of shape \<open>[N, P, 3]\<close> with
  \<open>N \<ge> 2\<close> and \<open>P \<ge> 2\<close> the mesher returns a mesh whose vertex buffer is the input
  flattened in order, and whose faces are, for \<open>k = 0, \<dots>, P * (N - 1) - 2\<close> (in
  open mode without the \<open>k\<close> whose vertex is the last of its slice), the vertex indices
  \<open>k, k + 1, P + k + 1, P + k\<close>. With \<open>k = i * P + j\<close> (slice \<open>i\<close>, vertex \<open>j\<close>) this is
  the face of the specification when \<open>j < P - 1\<close>. For \<open>j = P - 1\<close> there is no wrap
  to the first vertex of the same slice: the face connects \<open>(i, P - 1)\<close>, \<open>(i + 1, 0)\<close>,
  \<open>(i + 2, 0)\<close> and \<open>(i + 1, P - 1)\<close>.
\<close>

theorem mesh_face_vertices:
  assumes "shape a = [N, P, 3]" and "valid_array a" and "2 \<le> N" and "2 \<le> P"
  shows "\<exists>m. mesh_from_polygons a close = Inr m
           \<and> vertices m = \<lparr>shape = [N * P, 3], data = data a\<rparr>
           \<and> face_list m =
               map (\<lambda>k. tl (quad_row (int P) k))
                 (filter (\<lambda>k. close \<or> k mod int P \<noteq> int P - 1)
                    (py_range (int P * (int N - 1) - 1)))
           \<and> (\<forall>k. k mod int P \<noteq> int P - 1 \<longrightarrow>
                  tl (quad_row (int P) k) = spec_face (int P) (k div int P) (k mod int P))
           \<and> (\<forall>k. k mod int P = int P - 1 \<longrightarrow>
                  tl (quad_row (int P) k) =
                    [vertex_index (int P) (k div int P) (int P - 1),
                     vertex_index (int P) (k div int P + 1) 0,
                     vertex_index (int P) (k div int P + 2) 0,
                     vertex_index (int P) (k div int P + 1) (int P - 1)])"
proof -
  let ?ks = "filter (\<lambda>k. close \<or> k mod int P \<noteq> int P - 1)
               (py_range (int P * (int N - 1) - 1))"
  have ne: "?ks \<noteq> []" by (rule closed_or_inner_nonempty [OF assms(3,4)])
  have m: "mesh_from_polygons a close =
        Inr \<lparr>vertices = \<lparr>shape = [N * P, 3], data = data a\<rparr>,
             faces = concat (map (quad_row (int P)) ?ks)\<rparr>"
    using ne by (simp only: mesh_from_polygons_shape3 [OF assms(1,2)] Let_def if_False)
  have P0: "0 < int P" using assms(4) by simp
  have inner: "\<forall>k. k mod int P \<noteq> int P - 1 \<longrightarrow>
                  tl (quad_row (int P) k) = spec_face (int P) (k div int P) (k mod int P)"
    using quad_row_inner [OF P0] by blast
  have lastf: "\<forall>k. k mod int P = int P - 1 \<longrightarrow>
                  tl (quad_row (int P) k) =
                    [vertex_index (int P) (k div int P) (int P - 1),
                     vertex_index (int P) (k div int P + 1) 0,
                     vertex_index (int P) (k div int P + 2) 0,
                     vertex_index (int P) (k div int P + 1) (int P - 1)]"
    using quad_row_last by blast
  have fl: "face_list \<lparr>vertices = \<lparr>shape = [N * P, 3], data = data a\<rparr>,
             faces = concat (map (quad_row (int P)) ?ks)\<rparr>
            = map (\<lambda>k. tl (quad_row (int P) k)) ?ks"
    by (simp add: face_list_def cells_quad_rows_tl)
  show ?thesis
    apply (rule exI [of _ "\<lparr>vertices = \<lparr>shape = [N * P, 3], data = data a\<rparr>,
             faces = concat (map (quad_row (int P)) ?ks)\<rparr>"])
    apply (intro conjI)
        apply (rule m)
       apply simp
      apply (rule fl)
     apply (rule inner)
    apply (rule lastf)
    done
qed

text \<open>Three slices of two points, closed: the three faces the mesher makes.\<close>

theorem mesh_face_vertices_witness:
  "\<exists>m. mesh_from_polygons \<lparr>shape = [3, 2, 3], data = replicate 18 0\<rparr> True = Inr m
       \<and> vertices m = \<lparr>shape = [6, 3], data = replicate 18 0\<rparr>
       \<and> face_list m = [[0, 1, 3, 2], [1, 2, 4, 3], [2, 3, 5, 4]]"
proof -
  obtain m where m: "mesh_from_polygons \<lparr>shape = [3, 2, 3], data = replicate 18 0\<rparr> True = Inr m"
    and v: "vertices m = \<lparr>shape = [3 * 2, 3], data = data \<lparr>shape = [3, 2, 3], data = replicate 18 0\<rparr>\<rparr>"
    and f: "face_list m = map (\<lambda>k. tl (quad_row (int 2) k))
                 (filter (\<lambda>k. True \<or> k mod int 2 \<noteq> int 2 - 1)
                    (py_range (int 2 * (int 3 - 1) - 1)))"
    using mesh_face_vertices [of "\<lparr>shape = [3, 2, 3], data = replicate 18 0\<rparr>" 3 2 True]
    by (auto simp: valid_array_def)
  have "face_list m = [[0, 1, 3, 2], [1, 2, 4, 3], [2, 3, 5, 4]]"
    using f by (simp add: py_range_3 quad_row_def)
  with m v show ?thesis by simp
qed

text \<open>
  The claim as the specification states it fails on that array: the face made for slice
  \<open>0\<close> and vertex \<open>1\<close> is \<open>[1, 2, 4, 3]\<close>, and the specification's face for them is
  \<open>[1, 0, 2, 3]\<close>.
\<close>

theorem mesh_face_vertices_counterexample:
  "map_sum id face_list (mesh_from_polygons \<lparr>shape = [3, 2, 3], data = replicate 18 0\<rparr> True)
     = Inr [[0, 1, 3, 2], [1, 2, 4, 3], [2, 3, 5, 4]]
   \<and> spec_face 2 0 1 = [1, 0, 2, 3]
   \<and> map_sum id face_list (mesh_from_polygons \<lparr>shape = [3, 2, 3], data = replicate 18 0\<rparr> True)
     \<noteq> Inr [spec_face 2 0 0, spec_face 2 0 1, spec_face 2 1 0]"
  by (simp add: mesh_from_polygons_def py_bind_def reshape_rows3_def hstack_def py_range_3
      quad_row_def face_list_def spec_face_def vertex_index_def)

section \<open>Facts about the cross-section generators\<close>

lemma add_rows_tile:
  "n = length ps \<Longrightarrow> add_rows (map f ps) (np_tile c n) = map (\<lambda>p. vadd (f p) c) ps"
  by (induction ps arbitrary: n) (simp_all add: add_rows_def np_tile_def)

lemma coord3_placed: "coord3 (vadd (rotate_z theta (a, b, c)) (x, y, z)) = c + z"
  by (simp add: coord3_def vadd_def rotate_z_def)

lemma linspace_turn:
  "linspace 0 (2 * pi) 20 = map (\<lambda>k. 2 * pi * real k / 19) [0..<20]"
proof -
  have "[0..<20] = [0..<19] @ [19::nat]"
    by (simp add: upt_rec)
  then have "map (\<lambda>k. 2 * pi * real k / 19) [0..<20]
             = map (\<lambda>k. 2 * pi * real k / 19) [0..<19] @ [2 * pi]"
    by simp
  moreover have "linspace 0 (2 * pi) 20
             = map (\<lambda>k. 2 * pi * real k / 19) [0..<19] @ [2 * pi]"
    by (simp add: linspace_def mult.commute)
  ultimately show ?thesis by simp
qed

lemma ellipse_points:
  "ellipse rxy rz beam_xy beam_z x y z theta =
     map (\<lambda>t. vadd (rotate_z theta (rxy * cos t + beam_xy, 0, rz * sin t + beam_z)) (x, y, z))
       (linspace 0 (2 * pi) 20)"
  by (simp add: ellipse_def Let_def add_rows_tile comp_def)

lemma make_screen_points:
  "make_screen xs ys x y z theta = Inr pts \<Longrightarrow>
   length xs = length ys
   \<and> pts = map (\<lambda>p. vadd (rotate_z theta p) (x, y, z)) (zip xs (zip (zeros_like xs) ys))"
  by (auto simp: make_screen_def column_stack_def py_bind_def Let_def add_rows_tile
      zeros_like_def split: if_splits)

lemma coord3_screen:
  "length xs = length ys \<Longrightarrow>
   map (\<lambda>p. coord3 (vadd (rotate_z theta p) (x, y, z))) (zip xs (zip (zeros_like xs) ys))
   = map (\<lambda>v. z + v) ys"
proof (induction xs arbitrary: ys)
  case Nil
  then show ?case by simp
next
  case (Cons a xs)
  then obtain b ys' where ys: "ys = b # ys'" and l: "length xs = length ys'"
    by (cases ys) auto
  from Cons.IH [OF l] show ?case
    by (simp add: ys zeros_like_def coord3_placed)
qed

section \<open>Claims about the cross-section generators\<close>

text \<open>
  Claim C4, as the code has it. For all radii, offsets, centre and angle, the ellipse
  generator returns 20 points, sampled at the parameters \<open>t = 2 * pi * k / 19\<close> for
  \<open>k = 0, \<dots>, 19\<close>: equidistant over the closed interval from \<open>0\<close> to \<open>2 * pi\<close>, both
  ends included. The point before rotation is
  \<open>(rxy * cos t + beam_xy, 0, rz * sin t + beam_z)\<close>. The last point, at \<open>t = 2 * pi\<close>,
  is the first point again.
\<close>

theorem ellipse_sampling:
  "ellipse rxy rz beam_xy beam_z x y z theta =
     map (\<lambda>k. vadd (rotate_z theta (rxy * cos (2 * pi * real k / 19) + beam_xy, 0,
                                      rz * sin (2 * pi * real k / 19) + beam_z))
                    (x, y, z)) [0..<20]
   \<and> length (ellipse rxy rz beam_xy beam_z x y z theta) = 20
   \<and> last (ellipse rxy rz beam_xy beam_z x y z theta)
     = hd (ellipse rxy rz beam_xy beam_z x y z theta)"
proof -
  have e: "ellipse rxy rz beam_xy beam_z x y z theta =
     map (\<lambda>k. vadd (rotate_z theta (rxy * cos (2 * pi * real k / 19) + beam_xy, 0,
                                      rz * sin (2 * pi * real k / 19) + beam_z))
                    (x, y, z)) [0..<20]"
    by (simp only: ellipse_points linspace_turn map_map comp_def)
  have u: "[0..<20] = 0 # [1..<19] @ [19::nat]"
    by (simp add: upt_rec)
  have l: "last (ellipse rxy rz beam_xy beam_z x y z theta)
           = hd (ellipse rxy rz beam_xy beam_z x y z theta)"
    unfolding e u by simp
  have n: "length (ellipse rxy rz beam_xy beam_z x y z theta) = 20"
    unfolding e by simp
  from e n l show ?thesis by blast
qed

text \<open>
  The claim as the specification states it (parameters in the half-open interval up to
  \<open>2 * pi\<close>, the first point not repeated as the last) fails for the unit circle at the
  origin: the last parameter is \<open>2 * pi\<close> itself, and the last point is the first.
\<close>

theorem ellipse_sampling_counterexample:
  "last (ellipse 1 1 0 0 0 0 0 0) = hd (ellipse 1 1 0 0 0 0 0 0)
   \<and> last (linspace 0 (2 * pi) 20) = 2 * pi
   \<and> \<not> last (linspace 0 (2 * pi) 20) < 2 * pi"
proof -
  have u: "[0..<20] = 0 # [1..<19] @ [19::nat]"
    by (simp add: upt_rec)
  have "last (ellipse 1 1 0 0 0 0 0 0) = hd (ellipse 1 1 0 0 0 0 0 0)"
    unfolding ellipse_points linspace_turn u by simp
  moreover have "last (linspace 0 (2 * pi) 20) = 2 * pi"
    by (simp add: linspace_def)
  ultimately show ?thesis by simp
qed

text \<open>
  Claim C9. For all extents, centre and angle, the rectangular screen generator returns
  exactly 4 points: the corners \<open>(x_max, y_min)\<close>, \<open>(x_min, y_min)\<close>, \<open>(x_min, y_max)\<close>,
  \<open>(x_max, y_max)\<close> of the local frame, in this order, each rotated and then translated.
  In the open variant (\<open>close = False\<close>) both corners that name \<open>x_max\<close> use \<open>0\<close> in its
  place, whatever \<open>x_max\<close> was given.
\<close>

theorem rectangular_screen_corners:
  "make_rectangular_screen x_min x_max y_min y_max x y z theta True =
     map (\<lambda>p. vadd (rotate_z theta p) (x, y, z))
       [(x_max, 0, y_min), (x_min, 0, y_min), (x_min, 0, y_max), (x_max, 0, y_max)]
   \<and> make_rectangular_screen x_min x_max y_min y_max x y z theta False =
     map (\<lambda>p. vadd (rotate_z theta p) (x, y, z))
       [(0, 0, y_min), (x_min, 0, y_min), (x_min, 0, y_max), (0, 0, y_max)]
   \<and> length (make_rectangular_screen x_min x_max y_min y_max x y z theta close) = 4"
  by (simp add: make_rectangular_screen_def add_rows_tile Let_def)

text \<open>
  Claim C10. For each of the three generators, for every angle \<open>theta\<close>, the third
  coordinate of every output point is the centre's \<open>z\<close> plus the local vertical
  coordinate of that point: \<open>rz * sin t + beam_z\<close> for the ellipse, the entry of \<open>ys\<close>
  for the polygon screen (when it returns), \<open>y_min\<close> or \<open>y_max\<close> for the rectangle. The
  lists of third coordinates are equal, so the points agree index by index.
\<close>

theorem third_coordinate_kept:
  "map coord3 (ellipse rxy rz beam_xy beam_z x y z theta)
     = map (\<lambda>t. z + (rz * sin t + beam_z)) (linspace 0 (2 * pi) 20)
   \<and> (make_screen xs ys x y z theta = Inr pts \<longrightarrow> map coord3 pts = map (\<lambda>v. z + v) ys)
   \<and> map coord3 (make_rectangular_screen x_min x_max y_min y_max x y z theta close)
     = [z + y_min, z + y_min, z + y_max, z + y_max]"
proof (intro conjI impI)
  show "map coord3 (ellipse rxy rz beam_xy beam_z x y z theta)
     = map (\<lambda>t. z + (rz * sin t + beam_z)) (linspace 0 (2 * pi) 20)"
    by (simp add: ellipse_points comp_def coord3_placed)
next
  assume "make_screen xs ys x y z theta = Inr pts"
  from make_screen_points [OF this] show "map coord3 pts = map (\<lambda>v. z + v) ys"
    by (simp add: comp_def coord3_screen)
next
  show "map coord3 (make_rectangular_screen x_min x_max y_min y_max x y z theta close)
     = [z + y_min, z + y_min, z + y_max, z + y_max]"
    by (simp add: make_rectangular_screen_def Let_def add_rows_tile coord3_placed)
qed

text \<open>A polygon of two points, an ellipse and an open rectangle, turned by a right angle.\<close>

theorem third_coordinate_kept_witness:
  "make_screen [1, 2] [3, 4] 0 0 5 (pi / 2) = Inr [(0, 1, 8), (0, 2, 9)]
   \<and> map coord3 [(0, 1, 8), (0, 2, 9)] = map (\<lambda>v. 5 + v) [3, 4]
   \<and> map coord3 (ellipse 1 2 0 0 0 0 5 (pi / 2))
     = map (\<lambda>t. 5 + (2 * sin t + 0)) (linspace 0 (2 * pi) 20)
   \<and> map coord3 (make_rectangular_screen (- 1) 1 (- 2) 2 0 0 5 (pi / 2) False)
     = [5 + - 2, 5 + - 2, 5 + 2, 5 + 2]"
proof -
  have s: "make_screen [1, 2] [3, 4] 0 0 5 (pi / 2) = Inr [(0, 1, 8), (0, 2, 9)]"
    by (simp add: make_screen_def column_stack_def zeros_like_def py_bind_def Let_def
        add_rows_def np_tile_def rotate_z_def vadd_def numeral_2_eq_2)
  from s third_coordinate_kept
    [of 1 2 0 0 0 0 5 "pi / 2" "[1, 2]" "[3, 4]" "[(0, 1, 8), (0, 2, 9)]" "- 1" 1 "- 2" 2 False]
  show ?thesis by simp
qed

section \<open>Facts about the envelope sizer\<close>

lemma np_binop_same_length:
  "length a = length b \<Longrightarrow> np_binop f a b = Inr (map2 f a b)"
  by (simp add: np_binop_def)

lemma compute_beam_size_valid:
  assumes "valid_twiss tw n"
  shows "compute_beam_size sv tw =
     Inr \<lparr>bs_s = tw_s tw, bs_x = tw_x tw,
          bs_sigx = map2 (\<lambda>b d. 3 * sqrt (25 / 10000000 / tw_gamma0 tw * b) + \<bar>d\<bar> * (8 / 10000))
                      (tw_betx tw) (tw_dx tw),
          bs_y = tw_y tw,
          bs_sigy = map2 (\<lambda>b d. 3 * sqrt (25 / 10000000 / tw_gamma0 tw * b) + \<bar>d\<bar> * (8 / 10000))
                      (tw_bety tw) (tw_dy tw),
          bs_sx = sv_X sv, bs_sy = sv_Y sv, bs_sz = sv_Z sv, bs_theta = sv_theta sv\<rparr>"
proof -
  have lx: "length (tw_betx tw) = length (tw_dx tw)"
    and ly: "length (tw_bety tw) = length (tw_dy tw)"
    using assms by (simp_all add: valid_twiss_def)
  have m: "map2 (+) (map f bs) (map g ds) = map2 (\<lambda>b d. f b + g d) bs ds"
    for f g :: "real \<Rightarrow> real" and bs ds
    by (simp add: zip_map_map map_zip_map split_def)
  show ?thesis
    unfolding compute_beam_size_def Let_def
    by (simp add: np_binop_same_length lx ly py_bind_def m)
qed

lemma sigma_nonneg:
  assumes "0 < g" and "0 \<le> b"
  shows "0 \<le> 3 * sqrt (25 / 10000000 / g * b) + \<bar>d\<bar> * (8 / 10000)"
proof -
  have "0 \<le> 25 / 10000000 / g * b" using assms by simp
  then have "0 \<le> sqrt (25 / 10000000 / g * b)" by simp
  then show ?thesis by simp
qed

lemma map2_sigma_nonneg:
  assumes "0 < g" and "list_all (\<lambda>b. 0 \<le> b) bs"
  shows "list_all (\<lambda>v. 0 \<le> v)
           (map2 (\<lambda>b d. 3 * sqrt (25 / 10000000 / g * b) + \<bar>d\<bar> * (8 / 10000)) bs ds)"
  using assms(2)
proof (induction bs arbitrary: ds)
  case Nil
  then show ?case by simp
next
  case (Cons b bs)
  show ?case
  proof (cases ds)
    case Nil
    then show ?thesis by simp
  next
    case (Cons d ds')
    with Cons.prems Cons.IH [of ds'] sigma_nonneg [OF assms(1), of b d] show ?thesis
      by simp
  qed
qed

section \<open>Claims about the envelope sizer\<close>

text \<open>
  Claim C6. For a twiss table whose columns all have the table's length \<open>n\<close>, the
  envelope sizer returns, and at every slice \<open>sigx\<close> is
  \<open>n_sigmas * sqrt (nemitt_x / gamma0 * betx) + \<bar>dx\<bar> * sigma_delta\<close> and \<open>sigy\<close> is
  \<open>n_sigmas * sqrt (nemitt_y / gamma0 * bety) + \<bar>dy\<bar> * sigma_delta\<close>, with the constants
  of the code: \<open>n_sigmas = 3\<close>, \<open>nemitt_x = nemitt_y = 2.5e-6\<close> and
  \<open>sigma_delta = 8e-4\<close>. When \<open>gamma0\<close> is positive and no \<open>betx\<close>, \<open>bety\<close> is negative,
  no \<open>sigx\<close>, \<open>sigy\<close> is negative.
\<close>

theorem envelope_sizes:
  assumes "valid_twiss tw n" and "0 < tw_gamma0 tw"
    and "list_all (\<lambda>b. 0 \<le> b) (tw_betx tw)" and "list_all (\<lambda>b. 0 \<le> b) (tw_bety tw)"
  shows "\<exists>r. compute_beam_size sv tw = Inr r
           \<and> bs_sigx r =
               map2 (\<lambda>b d. 3 * sqrt (25 / 10000000 / tw_gamma0 tw * b) + \<bar>d\<bar> * (8 / 10000))
                 (tw_betx tw) (tw_dx tw)
           \<and> bs_sigy r =
               map2 (\<lambda>b d. 3 * sqrt (25 / 10000000 / tw_gamma0 tw * b) + \<bar>d\<bar> * (8 / 10000))
                 (tw_bety tw) (tw_dy tw)
           \<and> length (bs_sigx r) = n \<and> length (bs_sigy r) = n
           \<and> list_all (\<lambda>v. 0 \<le> v) (bs_sigx r) \<and> list_all (\<lambda>v. 0 \<le> v) (bs_sigy r)"
proof -
  have len: "length (tw_betx tw) = n" "length (tw_dx tw) = n"
    "length (tw_bety tw) = n" "length (tw_dy tw) = n"
    using assms(1) by (simp_all add: valid_twiss_def)
  show ?thesis
    using map2_sigma_nonneg [OF assms(2,3), of "tw_dx tw"]
      map2_sigma_nonneg [OF assms(2,4), of "tw_dy tw"] len
    by (simp add: compute_beam_size_valid [OF assms(1)])
qed

text \<open>
  One slice with \<open>betx = 400000\<close>, \<open>dx = - 10000\<close>, \<open>bety = 0\<close>, \<open>dy = 5000\<close> and
  \<open>gamma0 = 1\<close>: \<open>sigx = 3 * sqrt 1 + 10000 * 8e-4 = 11\<close> and \<open>sigy = 0 + 5000 * 8e-4 = 4\<close>.
\<close>

theorem envelope_sizes_witness:
  "\<exists>r. compute_beam_size \<lparr>sv_X = [0], sv_Y = [0], sv_Z = [0], sv_theta = [0]\<rparr>
          \<lparr>tw_s = [0], tw_x = [0], tw_y = [0], tw_betx = [400000], tw_bety = [0],
           tw_dx = [- 10000], tw_dy = [5000], tw_gamma0 = 1\<rparr> = Inr r
       \<and> bs_sigx r = [11] \<and> bs_sigy r = [4]"
proof -
  have "sqrt (25 * 400000 / 10000000) = 1" by simp
  then show ?thesis
    using envelope_sizes [of "\<lparr>tw_s = [0], tw_x = [0], tw_y = [0], tw_betx = [400000],
        tw_bety = [0], tw_dx = [- 10000], tw_dy = [5000], tw_gamma0 = 1\<rparr>" 1
        "\<lparr>sv_X = [0], sv_Y = [0], sv_Z = [0], sv_theta = [0]\<rparr>"]
    by (auto simp: valid_twiss_def)
qed

section \<open>Facts about indexing, comprehensions and arrays of cross-sections\<close>

lemma py_index_in: "i < length xs \<Longrightarrow> py_index xs i = Inr (xs ! i)"
  by (simp add: py_index_def)

lemma py_for_all_Inr:
  assumes "\<forall>a\<in>set as. f a = Inr (g a)"
  shows "py_for f as = Inr (map g as)"
  using assms by (induction as) (simp_all add: py_bind_def)

lemma np_where_set: "i \<in> set (np_where flags) \<Longrightarrow> i < length flags \<and> flags ! i"
  by (simp add: np_where_def)

lemma np_where_count: "length (np_where flags) = length (filter (\<lambda>b. b) flags)"
proof -
  have "filter (\<lambda>b. b) (map ((!) flags) [0..<length flags])
        = map ((!) flags) (filter (\<lambda>i. flags ! i) [0..<length flags])"
    by (simp add: filter_map comp_def)
  then have "filter (\<lambda>b. b) flags = map ((!) flags) (np_where flags)"
    by (simp add: map_nth np_where_def)
  then show ?thesis by simp
qed

lemma make_screen_same_length:
  "length xs = length ys \<Longrightarrow>
   make_screen xs ys x y z theta
   = Inr (map (\<lambda>p. vadd (rotate_z theta p) (x, y, z)) (zip xs (zip (zeros_like xs) ys)))"
  by (simp add: make_screen_def column_stack_def py_bind_def Let_def add_rows_tile
      zeros_like_def)

lemma np_array_uniform:
  assumes "list_all (\<lambda>q. length q = P) polys" and "polys \<noteq> []"
  shows "np_array polys =
           Inr \<lparr>shape = [length polys, P, 3],
                data = concat (map flatten_vec3 (concat polys))\<rparr>"
proof -
  from assms(2) obtain p ps where c: "polys = p # ps" by (cases polys) auto
  with assms(1) have "length p = P" and "list_all (\<lambda>q. length q = length p) ps"
    by (simp_all add: list_all_iff)
  then show ?thesis by (simp add: np_array_def c)
qed

lemma np_array_first_dim:
  assumes "list_all (\<lambda>q. length q = P) polys"
  shows "\<exists>arr. np_array polys = Inr arr \<and> hd (shape arr) = length polys"
proof (cases "polys = []")
  case True
  then show ?thesis by (simp add: np_array_def)
next
  case False
  from np_array_uniform [OF assms False] show ?thesis by simp
qed

section \<open>Claims about the aperture slicer\<close>

text \<open>
  Claim C8. For an aperture table of \<open>n\<close> rows with its boolean mask, a survey table of at
  least \<open>n\<close> rows, and polygons of \<open>P\<close> points in the rows whose mask is true, the
  aperture slicer builds one cross-section for each row whose mask is true and none for
  the others: the list of cross-sections has as many entries as the mask has true
  entries, it is the list of the screens of the rows at the indices of the true entries,
  in ascending order of the index, and the array made of it has that many
  cross-sections as its first dimension. Nothing is asked of a row whose mask is false.
\<close>

theorem aperture_valid_rows:
  assumes "valid_aperture ap n" and "valid_survey sv m" and "n \<le> m"
    and "list_all (\<lambda>i. length (ap_polygon_x_discrete ap ! i) = P
                      \<and> length (ap_polygon_y_discrete ap ! i) = P)
           (np_where (ap_aperture_mask ap))"
  shows "\<exists>pts arr. aperture_sections ap sv scale = Inr pts
           \<and> length pts = length (filter (\<lambda>b. b) (ap_aperture_mask ap))
           \<and> map Inr pts =
               map (\<lambda>i. make_screen (map (\<lambda>v. v * scale) (ap_polygon_x_discrete ap ! i))
                          (map (\<lambda>v. v * scale) (ap_polygon_y_discrete ap ! i))
                          (sv_X sv ! i) (sv_Z sv ! i) (sv_Y sv ! i) (sv_theta sv ! i))
                 (np_where (ap_aperture_mask ap))
           \<and> np_array pts = Inr arr
           \<and> hd (shape arr) = length (filter (\<lambda>b. b) (ap_aperture_mask ap))"
proof -
  let ?idx = "np_where (ap_aperture_mask ap)"
  let ?xs = "\<lambda>i. map (\<lambda>v. v * scale) (ap_polygon_x_discrete ap ! i)"
  let ?ys = "\<lambda>i. map (\<lambda>v. v * scale) (ap_polygon_y_discrete ap ! i)"
  let ?g = "\<lambda>i. map (\<lambda>p. vadd (rotate_z (sv_theta sv ! i) p) (sv_X sv ! i, sv_Z sv ! i, sv_Y sv ! i))
                  (zip (?xs i) (zip (zeros_like (?xs i)) (?ys i)))"
  let ?f = "\<lambda>i.
           py_bind (py_index (ap_polygon_x_discrete ap) i) (\<lambda>xs_i.
           py_bind (py_index (ap_polygon_y_discrete ap) i) (\<lambda>ys_i.
           py_bind (py_index (sv_X sv) i) (\<lambda>sx_i.
           py_bind (py_index (sv_Z sv) i) (\<lambda>sz_i.
           py_bind (py_index (sv_Y sv) i) (\<lambda>sy_i.
           py_bind (py_index (sv_theta sv) i) (\<lambda>theta_i.
             make_screen (map (\<lambda>v. v * scale) xs_i) (map (\<lambda>v. v * scale) ys_i)
               sx_i sz_i sy_i theta_i))))))"
  have la: "length (ap_polygon_x_discrete ap) = n" "length (ap_polygon_y_discrete ap) = n"
    "length (ap_aperture_mask ap) = n"
    using assms(1) by (simp_all add: valid_aperture_def)
  have ls: "length (sv_X sv) = m" "length (sv_Y sv) = m" "length (sv_Z sv) = m"
    "length (sv_theta sv) = m"
    using assms(2) by (simp_all add: valid_survey_def)
  have lens: "length (?xs i) = P \<and> length (?ys i) = P" if "i \<in> set ?idx" for i
    using that assms(4) by (simp add: list_all_iff)
  have scr: "make_screen (?xs i) (?ys i) (sv_X sv ! i) (sv_Z sv ! i) (sv_Y sv ! i)
               (sv_theta sv ! i) = Inr (?g i)" if "i \<in> set ?idx" for i
  proof -
    from lens [OF that] have "length (?xs i) = length (?ys i)" by simp
    then show ?thesis by (rule make_screen_same_length)
  qed
  have body: "?f i = Inr (?g i)" if "i \<in> set ?idx" for i
  proof -
    from np_where_set [OF that] have "i < n" by (simp add: la)
    with assms(3) have "i < m" by linarith
    with \<open>i < n\<close> show ?thesis
      by (simp add: py_index_in la ls py_bind_def scr [OF that])
  qed
  have run: "aperture_sections ap sv scale = Inr (map ?g ?idx)"
    unfolding aperture_sections_def Let_def
    by (rule py_for_all_Inr) (simp add: body)
  have each: "map Inr (map ?g ?idx) =
        map (\<lambda>i. make_screen (?xs i) (?ys i) (sv_X sv ! i) (sv_Z sv ! i) (sv_Y sv ! i)
                    (sv_theta sv ! i)) ?idx"
    by (simp add: scr)
  have "length (?g i) = P" if "i \<in> set ?idx" for i
    using lens [OF that] by (simp add: zeros_like_def)
  then have "list_all (\<lambda>q. length q = P) (map ?g ?idx)"
    by (simp add: list_all_iff)
  from np_array_first_dim [OF this]
  obtain arr where arr: "np_array (map ?g ?idx) = Inr arr"
    "hd (shape arr) = length (map ?g ?idx)" by blast
  from arr(2) have hd: "hd (shape arr) = length (filter (\<lambda>b. b) (ap_aperture_mask ap))"
    by (simp add: np_where_count)
  have len: "length (map ?g ?idx) = length (filter (\<lambda>b. b) (ap_aperture_mask ap))"
    by (simp add: np_where_count)
  show ?thesis
    using run each arr(1) hd len by blast
qed

text \<open>
  The mask \<open>[True, False, True]\<close>: exactly two cross-sections, those of the rows 0 and 2
  in this order. The row 1, whose polygon is not even well formed, is not read.
\<close>

theorem aperture_valid_rows_witness:
  "\<exists>pts arr. aperture_sections
       \<lparr>ap_polygon_x_discrete = [[1, 2], [], [3, 4]],
        ap_polygon_y_discrete = [[5, 6], [7], [8, 9]],
        ap_aperture_mask = [True, False, True]\<rparr>
       \<lparr>sv_X = [10, 20, 30], sv_Y = [0, 0, 0], sv_Z = [0, 0, 0], sv_theta = [0, 0, 0]\<rparr> 1
       = Inr pts
     \<and> length pts = 2
     \<and> map Inr pts =
         [make_screen [1, 2] [5, 6] 10 0 0 0, make_screen [3, 4] [8, 9] 30 0 0 0]
     \<and> np_array pts = Inr arr \<and> hd (shape arr) = 2"
proof -
  have w: "np_where [True, False, True] = [0, 2]"
    by (simp add: np_where_def upt_rec)
  show ?thesis
    using aperture_valid_rows [of
        "\<lparr>ap_polygon_x_discrete = [[1, 2], [], [3, 4]],
          ap_polygon_y_discrete = [[5, 6], [7], [8, 9]],
          ap_aperture_mask = [True, False, True]\<rparr>" 3
        "\<lparr>sv_X = [10, 20, 30], sv_Y = [0, 0, 0], sv_Z = [0, 0, 0], sv_theta = [0, 0, 0]\<rparr>"
        3 2 1]
    by (simp add: w valid_aperture_def valid_survey_def numeral_2_eq_2)
qed

end
